theory Spec2Isabelle
  imports Main
begin

section \<open>Data model of the coordinator (task/agent.py)\<close>

text \<open>
  The roles of the SDK's \<^verbatim>\<open>Role\<close> enumeration. The source names
  \<^verbatim>\<open>Role.SYSTEM\<close>, \<^verbatim>\<open>Role.USER\<close> and \<^verbatim>\<open>Role.ASSISTANT\<close>.
\<close>

datatype role = SYSTEM | USER | ASSISTANT | FUNCTION | TOOL

text \<open>
  Every exception of the pipeline is a value. \<open>ValueError\<close>, \<open>IndexError\<close>,
  \<open>KeyError\<close> and \<open>TypeError\<close> are the ones Python raises inside
  task/agent.py itself; \<open>Upstream\<close> is any exception a collaborator raises (the LLM
  transport, an agent gateway, JSON decoding, schema validation).
\<close>

datatype error =
    ValueError string
  | IndexError
  | KeyError string
  | TypeError
  | Upstream string

text \<open>
  A chat message (\<^verbatim>\<open>aidial_sdk.chat_completion.Message\<close>). Only \<open>role\<close> is
  required; every other field is optional and defaults to \<^verbatim>\<open>None\<close>. The type
  \<open>'p\<close> stands for the structured sub-objects the coordinator never looks into
  (the custom content, tool calls, a function call).
\<close>

record 'p message =
  role :: role
  content :: "string option"
  custom_content :: "'p option"
  name :: "string option"
  tool_calls :: "'p option"
  tool_call_id :: "string option"
  function_call :: "'p option"

record 'p request =
  messages :: "'p message list"

text \<open>
  The values stored in the dictionaries that are sent to the LLM, and such a dictionary
  itself: an association list in insertion order, as a Python \<^verbatim>\<open>dict\<close> keeps it.
\<close>

datatype 'p pyval = VRole role | VStr string | VObj 'p

type_synonym 'p entry = "(string \<times> 'p pyval) list"

section \<open>The message-history builder: \<^verbatim>\<open>__prepare_messages\<close>\<close>

text \<open>
  \<^verbatim>\<open>StrictStr(x)\<close> is \<^verbatim>\<open>str(x)\<close>: a string is returned as it is, and
  \<^verbatim>\<open>None\<close> becomes the four characters \<^verbatim>\<open>None\<close>.
\<close>

fun StrictStr :: "string option \<Rightarrow> string" where
  "StrictStr None = ''None''"
| "StrictStr (Some s) = s"

text \<open>One key of \<^verbatim>\<open>m.dict(exclude_none=True)\<close>: a field that is \<^verbatim>\<open>None\<close> gives no key.\<close>

fun dict_field :: "string \<Rightarrow> 'v option \<Rightarrow> (string \<times> 'v) list" where
  "dict_field k None = []"
| "dict_field k (Some v) = [(k, v)]"

text \<open>\<^verbatim>\<open>m.dict(exclude_none=True)\<close>: the fields in declaration order, the unset ones left out.\<close>

definition dict_exclude_none :: "'p message \<Rightarrow> 'p entry" where
  "dict_exclude_none m =
     [(''role'', VRole (role m))]
     @ dict_field ''content'' (map_option VStr (content m))
     @ dict_field ''custom_content'' (map_option VObj (custom_content m))
     @ dict_field ''name'' (map_option VStr (name m))
     @ dict_field ''tool_calls'' (map_option VObj (tool_calls m))
     @ dict_field ''tool_call_id'' (map_option VStr (tool_call_id m))
     @ dict_field ''function_call'' (map_option VObj (function_call m))"

text \<open>
  The body of the loop of \<^verbatim>\<open>__prepare_messages\<close> (lines 107 to 116): the entry
  appended for one inbound message. \<^verbatim>\<open>m.custom_content\<close> is an object or
  \<^verbatim>\<open>None\<close>, so it is truthy exactly when it is set.
\<close>

definition prepare_entry :: "'p message \<Rightarrow> 'p entry" where
  "prepare_entry m =
     (if custom_content m \<noteq> None \<and> role m = USER
      then [(''role'', VRole USER), (''content'', VStr (StrictStr (content m)))]
      else dict_exclude_none m)"

text \<open>The \<^verbatim>\<open>for m in request.messages\<close> loop, appending to the list built so far.\<close>

fun prepare_loop :: "'p entry list \<Rightarrow> 'p message list \<Rightarrow> 'p entry list" where
  "prepare_loop acc [] = acc"
| "prepare_loop acc (m # ms) = prepare_loop (acc @ [prepare_entry m]) ms"

definition prepare_messages :: "'p request \<Rightarrow> string \<Rightarrow> 'p entry list" where
  "prepare_messages request system_prompt =
     prepare_loop [[(''content'', VStr system_prompt), (''role'', VRole SYSTEM)]]
       (messages request)"

section \<open>Dispatch to one agent gateway: \<^verbatim>\<open>__handle_coordination_request\<close>\<close>

text \<open>
  Modelled from the spec: the enumeration \<^verbatim>\<open>AgentName\<close> and the model
  \<^verbatim>\<open>CoordinationRequest\<close> of task/models.py, which is not among the sources. The
  spec gives the decision an agent name out of two (general purpose, user management
  service) and a text of additional instructions; the source calls the two members
  \<^verbatim>\<open>AgentName.GPA\<close> and \<^verbatim>\<open>AgentName.UMS\<close>. \<open>UnknownAgent\<close> is any other
  value the field may hold when \<^verbatim>\<open>__handle_coordination_request\<close> is reached,
  the case its last branch is written for.
\<close>

datatype agent_name = GPA | UMS | UnknownAgent string

record coordination_request =
  agent_name :: agent_name
  additional_instructions :: "string option"

text \<open>The two gateway classes the source instantiates.\<close>

datatype gateway = GPAGateway | UMSAgentGateway

text \<open>
  What the pipeline does to the outside world, in the order it does it: the progress
  segments it opens, writes and closes through \<^verbatim>\<open>StageProcessor\<close>, the two LLM
  calls with the message list they send, the call of a gateway's \<^verbatim>\<open>response\<close> with
  the additional instructions, and the fragments appended to the caller's choice.
\<close>

datatype 'p event =
    StageOpen string
  | StageAppend string string
  | StageClose string
  | LLMCall "'p entry list"
  | LLMStream "'p entry list"
  | GatewayCall gateway "string option"
  | ChoiceAppend string

text \<open>One chunk of the streamed completion: \<^verbatim>\<open>chunk.choices[i].delta.content\<close>.\<close>

datatype delta = Delta (delta_content: "string option")

datatype chunk_choice = ChunkChoice (delta: "delta option")

datatype chunk = Chunk (choices: "chunk_choice list")

text \<open>
  The collaborators of the coordinator, which are outside task/agent.py, as parameters:
  \<^item> \<open>chat_completion\<close>: the non-streaming \<^verbatim>\<open>client.chat.completions.create\<close>;
    it raises, or returns the \<^verbatim>\<open>message.content\<close> of each choice of the response;
  \<^item> \<open>chat_stream\<close>: the same call with \<^verbatim>\<open>stream=True\<close>; it raises, or returns
    the chunks the iteration delivers, and the exception that ends the iteration if one does;
  \<^item> \<open>json_loads\<close>, \<open>model_validate\<close>, \<open>model_dump_json\<close>: \<^verbatim>\<open>json.loads\<close> and the
    two methods of \<^verbatim>\<open>CoordinationRequest\<close>;
  \<^item> \<open>agent_name_str\<close>: how an agent name is formatted inside an f-string;
  \<^item> \<open>render\<close>: how an f-string formats a value that is not a string;
  \<^item> \<open>gpa_response\<close>, \<open>ums_response\<close>: the method \<^verbatim>\<open>response\<close> of the two gateways,
    given the request and the additional instructions; it raises or returns a message,
    and leaves the request as it is (what a gateway writes into its progress segment
    is not recorded);
  \<^item> the two system prompts of task/prompts.py.
\<close>

record ('p, 'j) env =
  chat_completion :: "'p entry list \<Rightarrow> error + string option list"
  chat_stream :: "'p entry list \<Rightarrow> error + chunk list \<times> error option"
  json_loads :: "string \<Rightarrow> error + 'j"
  model_validate :: "'j \<Rightarrow> error + coordination_request"
  model_dump_json :: "coordination_request \<Rightarrow> string"
  agent_name_str :: "agent_name \<Rightarrow> string"
  render :: "'p pyval \<Rightarrow> string"
  gpa_response :: "'p request \<Rightarrow> string option \<Rightarrow> error + 'p message"
  ums_response :: "'p request \<Rightarrow> string option \<Rightarrow> error + 'p message"
  COORDINATION_REQUEST_SYSTEM_PROMPT :: string
  FINAL_RESPONSE_SYSTEM_PROMPT :: string

text \<open>
  \<^verbatim>\<open>__handle_coordination_request\<close> (lines 120 to 141). The result is the trace of
  what was done and the message returned or the exception raised.
\<close>

definition handle_coordination_request ::
  "('p, 'j) env \<Rightarrow> coordination_request \<Rightarrow> 'p request \<Rightarrow> 'p event list \<times> (error + 'p message)" where
  "handle_coordination_request env coordination_request request =
     (if agent_name coordination_request = GPA then
        ([GatewayCall GPAGateway (additional_instructions coordination_request)],
         gpa_response env request (additional_instructions coordination_request))
      else if agent_name coordination_request = UMS then
        ([GatewayCall UMSAgentGateway (additional_instructions coordination_request)],
         ums_response env request (additional_instructions coordination_request))
      else ([], Inl (ValueError ''Unknown Agent'')))"

text \<open>The gateways called in a trace, in order.\<close>

fun gateway_calls :: "'p event list \<Rightarrow> gateway list" where
  "gateway_calls [] = []"
| "gateway_calls (GatewayCall g i # es) = g # gateway_calls es"
| "gateway_calls (e # es) = gateway_calls es"

section \<open>The decision call: \<^verbatim>\<open>__prepare_coordination_request\<close>\<close>

text \<open>
  Lines 70 to 91. \<^verbatim>\<open>response.choices[0]\<close> raises \<^verbatim>\<open>IndexError\<close> on an empty
  list, and \<^verbatim>\<open>json.loads(None)\<close> raises \<^verbatim>\<open>TypeError\<close>.
\<close>

definition prepare_coordination_request ::
  "('p, 'j) env \<Rightarrow> 'p request \<Rightarrow> 'p event list \<times> (error + coordination_request)" where
  "prepare_coordination_request env request =
     (let msgs = prepare_messages request (COORDINATION_REQUEST_SYSTEM_PROMPT env) in
      ([LLMCall msgs],
       (case chat_completion env msgs of
          Inl e \<Rightarrow> Inl e
        | Inr contents \<Rightarrow>
            (case contents of
               [] \<Rightarrow> Inl IndexError
             | c # _ \<Rightarrow>
                 (case c of
                    None \<Rightarrow> Inl TypeError
                  | Some s \<Rightarrow>
                      (case json_loads env s of
                         Inl e \<Rightarrow> Inl e
                       | Inr dict_content \<Rightarrow> model_validate env dict_content))))))"

section \<open>The synthesis call: \<^verbatim>\<open>__final_response\<close>\<close>

text \<open>\<^verbatim>\<open>messages[-1]\<close>: the last element, \<^verbatim>\<open>IndexError\<close> on an empty list.\<close>

definition last_entry :: "'a list \<Rightarrow> error + 'a" where
  "last_entry xs = (if xs = [] then Inl IndexError else Inr (last xs))"

text \<open>\<^verbatim>\<open>d['content']\<close>: the value under the key, \<^verbatim>\<open>KeyError\<close> when the key is absent.\<close>

definition get_content :: "'p entry \<Rightarrow> error + 'p pyval" where
  "get_content d =
     (case map_of d ''content'' of None \<Rightarrow> Inl (KeyError ''content'') | Some v \<Rightarrow> Inr v)"

text \<open>A value inside an f-string: a string stands for itself.\<close>

definition format_val :: "('p, 'j) env \<Rightarrow> 'p pyval \<Rightarrow> string" where
  "format_val env v = (case v of VStr s \<Rightarrow> s | _ \<Rightarrow> render env v)"

text \<open>
  \<^verbatim>\<open>d['content'] = v\<close>: an existing key keeps its place, a new one goes last.
\<close>

fun set_item :: "string \<Rightarrow> 'v \<Rightarrow> (string \<times> 'v) list \<Rightarrow> (string \<times> 'v) list" where
  "set_item k v [] = [(k, v)]"
| "set_item k v ((k', v') # d) = (if k' = k then (k, v) # d else (k', v') # set_item k v d)"

text \<open>
  The f-string of line 154, from the agent's content and the last entry's content as
  they are formatted.
\<close>

definition updated_user_request :: "string \<Rightarrow> string \<Rightarrow> string" where
  "updated_user_request a q =
     ''## CONTEXT:\<newline> '' @ a @ ''\<newline> ---\<newline> ## USER_REQUEST: \<newline> '' @ q"

text \<open>
  Lines 154 to 156: the message list with the content of its last entry rewritten. The
  agent's content is formatted first, then \<^verbatim>\<open>messages[-1]['content']\<close> is read.
\<close>

definition augment_last ::
  "('p, 'j) env \<Rightarrow> 'p message \<Rightarrow> 'p entry list \<Rightarrow> error + 'p entry list" where
  "augment_last env agent_message msgs =
     (case last_entry msgs of
        Inl e \<Rightarrow> Inl e
      | Inr d \<Rightarrow>
          (case get_content d of
             Inl e \<Rightarrow> Inl e
           | Inr q \<Rightarrow>
               Inr (butlast msgs @
                 [set_item ''content''
                    (VStr (updated_user_request (StrictStr (content agent_message))
                       (format_val env q))) d])))"

text \<open>\<^verbatim>\<open>chunk.choices[0]\<close>: \<^verbatim>\<open>IndexError\<close> on an empty list.\<close>

definition first_choice :: "chunk_choice list \<Rightarrow> error + chunk_choice" where
  "first_choice cs = (case cs of [] \<Rightarrow> Inl IndexError | c # _ \<Rightarrow> Inr c)"

text \<open>
  The body of the streaming loop (lines 166 to 170) on one chunk. The state is the list
  of fragments appended to the choice so far and the accumulated \<^verbatim>\<open>content\<close>. A
  delta is truthy when it is set, a content when it is set and not empty.
\<close>

definition consume_chunk ::
  "chunk \<Rightarrow> string list \<times> string \<Rightarrow> error + string list \<times> string" where
  "consume_chunk c st =
     (if choices c \<noteq> [] \<and> length (choices c) > 0 then
        (case first_choice (choices c) of
           Inl e \<Rightarrow> Inl e
         | Inr ch \<Rightarrow>
             (case delta ch of
                None \<Rightarrow> Inr st
              | Some d \<Rightarrow>
                  (case delta_content d of
                     None \<Rightarrow> Inr st
                   | Some s \<Rightarrow>
                       if s \<noteq> [] then Inr (fst st @ [s], snd st @ s) else Inr st)))
      else Inr st)"

text \<open>
  The \<^verbatim>\<open>async for\<close> loop. It returns the state reached and the exception that
  stopped it, if one did.
\<close>

fun stream_loop ::
  "chunk list \<Rightarrow> string list \<times> string \<Rightarrow> (string list \<times> string) \<times> error option" where
  "stream_loop [] st = (st, None)"
| "stream_loop (c # cs) st =
     (case consume_chunk c st of
        Inl e \<Rightarrow> (st, Some e)
      | Inr st' \<Rightarrow> stream_loop cs st')"

text \<open>
  \<^verbatim>\<open>__final_response\<close> (lines 152 to 176). What was appended to the choice stays in
  the trace when the iteration is cut short by an exception.
\<close>

definition final_response ::
  "('p, 'j) env \<Rightarrow> 'p request \<Rightarrow> 'p message \<Rightarrow> 'p event list \<times> (error + 'p message)" where
  "final_response env request agent_message =
     (case augment_last env agent_message
             (prepare_messages request (FINAL_RESPONSE_SYSTEM_PROMPT env)) of
        Inl e \<Rightarrow> ([], Inl e)
      | Inr msgs \<Rightarrow>
          (case chat_stream env msgs of
             Inl e \<Rightarrow> ([LLMStream msgs], Inl e)
           | Inr (chunks, broken) \<Rightarrow>
               (case stream_loop chunks ([], []) of
                  ((out, acc), Some e) \<Rightarrow> (LLMStream msgs # map ChoiceAppend out, Inl e)
                | ((out, acc), None) \<Rightarrow>
                    (case broken of
                       Some e \<Rightarrow> (LLMStream msgs # map ChoiceAppend out, Inl e)
                     | None \<Rightarrow>
                         (LLMStream msgs # map ChoiceAppend out,
                          Inr \<lparr>role = ASSISTANT, content = Some (StrictStr (Some acc)),
                               custom_content = custom_content agent_message,
                               name = None, tool_calls = None, tool_call_id = None,
                               function_call = None\<rparr>)))))"

section \<open>The pipeline: \<^verbatim>\<open>handle_request\<close>\<close>

text \<open>
  Modelled from the spec: \<^verbatim>\<open>StageProcessor\<close> of task/stage_util.py, which is not
  among the sources. The spec has it open, label and close named progress segments
  without it affecting the control flow, so \<^verbatim>\<open>open_stage\<close>, \<^verbatim>\<open>append_content\<close>
  and \<^verbatim>\<open>close_stage_safely\<close> are the events \<open>StageOpen\<close>, \<open>StageAppend\<close> and
  \<open>StageClose\<close> on the segment of that name, and none of them raises.
\<close>

definition coordination_stage :: string where
  "coordination_stage = ''Coordination Request''"

definition call_stage :: "('p, 'j) env \<Rightarrow> coordination_request \<Rightarrow> string" where
  "call_stage env prepared_request =
     ''Call '' @ agent_name_str env (agent_name prepared_request) @ '' Agent''"

text \<open>The text of line 42: the decision as JSON inside a code fence.\<close>

definition fenced_json :: "string \<Rightarrow> string" where
  "fenced_json js =
     ''```json'' @ [CHR 0x0A, CHR 0x0D] @ js @ [CHR 0x0A, CHR 0x0D] @ ''```'' @ [CHR 0x0A, CHR 0x0D]"

text \<open>
  \<^verbatim>\<open>handle_request\<close> (lines 36 to 62), logging left out. An exception of a phase
  ends the function where it is raised: there is no \<^verbatim>\<open>try\<close> in it.
\<close>

definition handle_request ::
  "('p, 'j) env \<Rightarrow> 'p request \<Rightarrow> 'p event list \<times> (error + 'p message)" where
  "handle_request env request =
     (case prepare_coordination_request env request of
        (t1, Inl e) \<Rightarrow> (StageOpen coordination_stage # t1, Inl e)
      | (t1, Inr prepared_request) \<Rightarrow>
          (let t2 = [StageAppend coordination_stage
                       (fenced_json (model_dump_json env prepared_request)),
                     StageClose coordination_stage,
                     StageOpen (call_stage env prepared_request)] in
           (case handle_coordination_request env prepared_request request of
              (t3, Inl e) \<Rightarrow> (StageOpen coordination_stage # t1 @ t2 @ t3, Inl e)
            | (t3, Inr agent_message) \<Rightarrow>
                (case final_response env request agent_message of
                   (t4, r) \<Rightarrow>
                     (StageOpen coordination_stage # t1 @ t2 @ t3
                        @ StageClose (call_stage env prepared_request) # t4, r)))))"

section \<open>Reading a trace\<close>

text \<open>The message lists of the streaming LLM calls of a trace.\<close>

fun stream_calls :: "'p event list \<Rightarrow> 'p entry list list" where
  "stream_calls [] = []"
| "stream_calls (LLMStream ms # es) = ms # stream_calls es"
| "stream_calls (e # es) = stream_calls es"

text \<open>The fragments appended to the caller's choice, in order.\<close>

fun choice_appends :: "'p event list \<Rightarrow> string list" where
  "choice_appends [] = []"
| "choice_appends (ChoiceAppend s # es) = s # choice_appends es"
| "choice_appends (e # es) = choice_appends es"

text \<open>
  The segments that are open after a trace, given those open before it: opening adds
  the name, closing removes it.
\<close>

fun track_segments :: "string list \<Rightarrow> 'p event list \<Rightarrow> string list" where
  "track_segments opened [] = opened"
| "track_segments opened (StageOpen n # es) = track_segments (opened @ [n]) es"
| "track_segments opened (StageClose n # es) = track_segments (removeAll n opened) es"
| "track_segments opened (e # es) = track_segments opened es"

definition open_segments :: "'p event list \<Rightarrow> string list" where
  "open_segments t = track_segments [] t"

section \<open>Definitions the statements compare the code with\<close>

text \<open>
  The most recent user message of a conversation, as the spec speaks of it: the last
  message whose role is User, if there is one.
\<close>

definition spec_most_recent_user :: "'p message list \<Rightarrow> 'p message option" where
  "spec_most_recent_user ms =
     (if filter (\<lambda>m. role m = USER) ms = [] then None
      else Some (last (filter (\<lambda>m. role m = USER) ms)))"

text \<open>
  The fragment a chunk carries, as the spec speaks of it: the content of the delta of
  its first choice when there is one and it is not empty, nothing otherwise.
\<close>

definition spec_fragment :: "chunk \<Rightarrow> string list" where
  "spec_fragment c =
     (case choices c of
        [] \<Rightarrow> []
      | ch # _ \<Rightarrow>
          (case delta ch of
             None \<Rightarrow> []
           | Some d \<Rightarrow>
               (case delta_content d of
                  None \<Rightarrow> []
                | Some s \<Rightarrow> if s = [] then [] else [s])))"

text \<open>A stream that delivers the given fragments, one chunk of one choice each.\<close>

definition chunks_of :: "string list \<Rightarrow> chunk list" where
  "chunks_of fs = map (\<lambda>f. Chunk [ChunkChoice (Some (Delta (Some f)))]) fs"

section \<open>A concrete run\<close>

text \<open>
  The end-to-end scenario of the spec: one user message, the decision names the user
  management service, whose gateway answers with a custom content, and the synthesis
  streams two fragments. The custom content is a number here, and the decoded JSON is
  the decision itself.
\<close>

definition plain_message :: "role \<Rightarrow> string \<Rightarrow> nat message" where
  "plain_message r c =
     \<lparr>role = r, content = Some c, custom_content = None, name = None, tool_calls = None,
      tool_call_id = None, function_call = None\<rparr>"

definition jane_request :: "nat request" where
  "jane_request = \<lparr>messages = [plain_message USER ''Create a new account for Jane'']\<rparr>"

definition ums_decision :: coordination_request where
  "ums_decision =
     \<lparr>agent_name = UMS, additional_instructions = Some ''create account for Jane''\<rparr>"

definition account_created :: "nat message" where
  "account_created = (plain_message ASSISTANT ''Account created'')\<lparr>custom_content := Some 42\<rparr>"

definition jane_env :: "(nat, coordination_request) env" where
  "jane_env =
     \<lparr>chat_completion = (\<lambda>ms. Inr [Some ''{}'']),
      chat_stream = (\<lambda>ms. Inr (chunks_of [''Hel'', ''lo''], None)),
      json_loads = (\<lambda>s. Inr ums_decision),
      model_validate = Inr,
      model_dump_json = (\<lambda>r. ''{}''),
      agent_name_str = (\<lambda>a. case a of GPA \<Rightarrow> ''GPA'' | UMS \<Rightarrow> ''UMS'' | UnknownAgent s \<Rightarrow> s),
      render = (\<lambda>v. []),
      gpa_response = (\<lambda>r i. Inl (Upstream ''not called'')),
      ums_response = (\<lambda>r i. Inr account_created),
      COORDINATION_REQUEST_SYSTEM_PROMPT = ''decide'',
      FINAL_RESPONSE_SYSTEM_PROMPT = ''answer''\<rparr>"

text \<open>
  A user message that carries a custom content, and a conversation that ends with an
  assistant message carrying one.
\<close>

definition form_request :: "nat request" where
  "form_request =
     \<lparr>messages = [(plain_message USER ''book it'')\<lparr>custom_content := Some 7\<rparr>]\<rparr>"

definition leak_request :: "nat request" where
  "leak_request =
     \<lparr>messages = [plain_message USER ''hi'',
                  (plain_message ASSISTANT ''hello'')\<lparr>custom_content := Some 7\<rparr>]\<rparr>"

text \<open>
  A stream with chunks that carry nothing between those that carry a fragment, and a
  run in which the gateway of the user management service raises.
\<close>

definition gappy_chunks :: "chunk list" where
  "gappy_chunks =
     [Chunk [],
      Chunk [ChunkChoice None],
      Chunk [ChunkChoice (Some (Delta None))],
      Chunk [ChunkChoice (Some (Delta (Some ''Hel'')))],
      Chunk [ChunkChoice (Some (Delta (Some [])))],
      Chunk [ChunkChoice (Some (Delta (Some ''lo''))), ChunkChoice (Some (Delta (Some ''x'')))]]"

definition gappy_env :: "(nat, coordination_request) env" where
  "gappy_env = jane_env\<lparr>chat_stream := (\<lambda>ms. Inr (gappy_chunks, None))\<rparr>"

definition failing_env :: "(nat, coordination_request) env" where
  "failing_env = jane_env\<lparr>ums_response := (\<lambda>r i. Inl (Upstream ''connection refused''))\<rparr>"

section \<open>Properties of the message-history builder\<close>

lemma prepare_loop_map: "prepare_loop acc ms = acc @ map prepare_entry ms"
  by (induction ms arbitrary: acc) simp_all

lemma prepare_messages_Cons:
  "prepare_messages request sp =
     [(''content'', VStr sp), (''role'', VRole SYSTEM)] # map prepare_entry (messages request)"
  by (simp add: prepare_messages_def prepare_loop_map)

lemma prepare_entry_role: "map_of (prepare_entry m) ''role'' = Some (VRole (role m))"
  by (simp add: prepare_entry_def dict_exclude_none_def)

lemma last_prepare_messages:
  "last (prepare_messages request sp) =
     (if messages request = [] then [(''content'', VStr sp), (''role'', VRole SYSTEM)]
      else prepare_entry (last (messages request)))"
  by (simp add: prepare_messages_Cons last_map)

lemma map_of_dict_field: "map_of (dict_field k v) k' = (if k' = k then v else None)"
  by (cases v) simp_all

lemma dict_exclude_none_custom_content:
  "map_of (dict_exclude_none m) ''custom_content'' = map_option VObj (custom_content m)"
  by (simp add: dict_exclude_none_def map_of_dict_field map_add_def split: option.split)

lemma dict_field_case:
  "dict_field k (map_option f v) = (case v of None \<Rightarrow> [] | Some x \<Rightarrow> [(k, f x)])"
  by (cases v) simp_all

lemma prepare_entry_explicit:
  "prepare_entry m =
     (if custom_content m \<noteq> None \<and> role m = USER
      then [(''role'', VRole USER),
            (''content'', VStr (case content m of None \<Rightarrow> ''None'' | Some c \<Rightarrow> c))]
      else [(''role'', VRole (role m))]
           @ (case content m of None \<Rightarrow> [] | Some c \<Rightarrow> [(''content'', VStr c)])
           @ (case custom_content m of None \<Rightarrow> [] | Some p \<Rightarrow> [(''custom_content'', VObj p)])
           @ (case name m of None \<Rightarrow> [] | Some n \<Rightarrow> [(''name'', VStr n)])
           @ (case tool_calls m of None \<Rightarrow> [] | Some p \<Rightarrow> [(''tool_calls'', VObj p)])
           @ (case tool_call_id m of None \<Rightarrow> [] | Some n \<Rightarrow> [(''tool_call_id'', VStr n)])
           @ (case function_call m of None \<Rightarrow> [] | Some p \<Rightarrow> [(''function_call'', VObj p)]))"
  by (simp add: prepare_entry_def dict_exclude_none_def dict_field_case split: option.split)

lemma prepare_entry_content:
  "map_of (prepare_entry m) ''content'' =
     (if custom_content m \<noteq> None \<and> role m = USER
      then Some (VStr (case content m of None \<Rightarrow> ''None'' | Some c \<Rightarrow> c))
      else (case content m of None \<Rightarrow> None | Some c \<Rightarrow> Some (VStr c)))"
  by (simp add: prepare_entry_explicit split: option.split)

text \<open>
  C2. Whatever the conversation and the system prompt, the list built has one entry
  more than the conversation has messages; its first entry has the keys content and
  role, with the role System and the given prompt as content; and the entries after
  it are those of the inbound messages, one each and in their order. Each of them is
  spelled out: it has the role of its message, and as content the text of its message
  (for a user message with a custom content, the text alone, which is the string
  \<^verbatim>\<open>None\<close> when the message has none; for any other message, the text when it has
  one and no content key otherwise), followed, for a message that is not a user message
  with a custom content, by every other field of the message that is set.
\<close>

theorem prepare_messages_shape:
  "length (prepare_messages request sp) = length (messages request) + 1
   \<and> map_of (hd (prepare_messages request sp)) ''role'' = Some (VRole SYSTEM)
   \<and> map_of (hd (prepare_messages request sp)) ''content'' = Some (VStr sp)
   \<and> map fst (hd (prepare_messages request sp)) = [''content'', ''role'']
   \<and> tl (prepare_messages request sp) = map prepare_entry (messages request)
   \<and> map (\<lambda>d. map_of d ''role'') (tl (prepare_messages request sp))
       = map (\<lambda>m. Some (VRole (role m))) (messages request)
   \<and> map (\<lambda>d. map_of d ''content'') (tl (prepare_messages request sp))
       = map (\<lambda>m. if custom_content m \<noteq> None \<and> role m = USER
                    then Some (VStr (case content m of None \<Rightarrow> ''None'' | Some c \<Rightarrow> c))
                    else (case content m of None \<Rightarrow> None | Some c \<Rightarrow> Some (VStr c)))
           (messages request)
   \<and> tl (prepare_messages request sp)
       = map (\<lambda>m. if custom_content m \<noteq> None \<and> role m = USER
           then [(''role'', VRole USER),
                 (''content'', VStr (case content m of None \<Rightarrow> ''None'' | Some c \<Rightarrow> c))]
           else [(''role'', VRole (role m))]
             @ (case content m of None \<Rightarrow> [] | Some c \<Rightarrow> [(''content'', VStr c)])
             @ (case custom_content m of None \<Rightarrow> [] | Some p \<Rightarrow> [(''custom_content'', VObj p)])
             @ (case name m of None \<Rightarrow> [] | Some n \<Rightarrow> [(''name'', VStr n)])
             @ (case tool_calls m of None \<Rightarrow> [] | Some p \<Rightarrow> [(''tool_calls'', VObj p)])
             @ (case tool_call_id m of None \<Rightarrow> [] | Some n \<Rightarrow> [(''tool_call_id'', VStr n)])
             @ (case function_call m of None \<Rightarrow> [] | Some p \<Rightarrow> [(''function_call'', VObj p)]))
           (messages request)"
proof -
  have shape: "length (prepare_messages request sp) = length (messages request) + 1
   \<and> map_of (hd (prepare_messages request sp)) ''role'' = Some (VRole SYSTEM)
   \<and> map_of (hd (prepare_messages request sp)) ''content'' = Some (VStr sp)
   \<and> map fst (hd (prepare_messages request sp)) = [''content'', ''role'']
   \<and> tl (prepare_messages request sp) = map prepare_entry (messages request)
   \<and> map (\<lambda>d. map_of d ''role'') (tl (prepare_messages request sp))
       = map (\<lambda>m. Some (VRole (role m))) (messages request)"
    by (simp add: prepare_messages_Cons prepare_entry_role)
  have cont: "map (\<lambda>d. map_of d ''content'') (tl (prepare_messages request sp))
       = map (\<lambda>m. if custom_content m \<noteq> None \<and> role m = USER
                    then Some (VStr (case content m of None \<Rightarrow> ''None'' | Some c \<Rightarrow> c))
                    else (case content m of None \<Rightarrow> None | Some c \<Rightarrow> Some (VStr c)))
           (messages request)"
    by (simp add: prepare_messages_Cons prepare_entry_content o_def)
  have whole: "tl (prepare_messages request sp)
       = map (\<lambda>m. if custom_content m \<noteq> None \<and> role m = USER
           then [(''role'', VRole USER),
                 (''content'', VStr (case content m of None \<Rightarrow> ''None'' | Some c \<Rightarrow> c))]
           else [(''role'', VRole (role m))]
             @ (case content m of None \<Rightarrow> [] | Some c \<Rightarrow> [(''content'', VStr c)])
             @ (case custom_content m of None \<Rightarrow> [] | Some p \<Rightarrow> [(''custom_content'', VObj p)])
             @ (case name m of None \<Rightarrow> [] | Some n \<Rightarrow> [(''name'', VStr n)])
             @ (case tool_calls m of None \<Rightarrow> [] | Some p \<Rightarrow> [(''tool_calls'', VObj p)])
             @ (case tool_call_id m of None \<Rightarrow> [] | Some n \<Rightarrow> [(''tool_call_id'', VStr n)])
             @ (case function_call m of None \<Rightarrow> [] | Some p \<Rightarrow> [(''function_call'', VObj p)]))
           (messages request)"
    unfolding prepare_messages_Cons list.sel
    by (rule map_cong [OF refl]) (rule prepare_entry_explicit)
  from shape cont whole show ?thesis by (intro conjI) (elim conjE, assumption)+
qed

theorem prepare_messages_shape_witness:
  "prepare_messages leak_request ''p'' =
     [[(''content'', VStr ''p''), (''role'', VRole SYSTEM)],
      [(''role'', VRole USER), (''content'', VStr ''hi'')],
      [(''role'', VRole ASSISTANT), (''content'', VStr ''hello''), (''custom_content'', VObj 7)]]
   \<and> length (prepare_messages leak_request ''p'') = 3
   \<and> map (\<lambda>d. map_of d ''content'') (tl (prepare_messages leak_request ''p''))
       = [Some (VStr ''hi''), Some (VStr ''hello'')]"
proof -
  have m: "messages leak_request =
     [plain_message USER ''hi'',
      (plain_message ASSISTANT ''hello'')\<lparr>custom_content := Some 7\<rparr>]"
    by (simp add: leak_request_def)
  have ne: "prepare_messages leak_request ''p'' \<noteq> []"
    by (simp add: prepare_messages_Cons)
  have hd_eq: "hd (prepare_messages leak_request ''p'') =
      [(''content'', VStr ''p''), (''role'', VRole SYSTEM)]"
    by (simp add: prepare_messages_Cons)
  from prepare_messages_shape [of leak_request "''p''"]
  have t: "tl (prepare_messages leak_request ''p'') =
      [[(''role'', VRole USER), (''content'', VStr ''hi'')],
       [(''role'', VRole ASSISTANT), (''content'', VStr ''hello''), (''custom_content'', VObj 7)]]"
    and l: "length (prepare_messages leak_request ''p'') = 3"
    and c: "map (\<lambda>d. map_of d ''content'') (tl (prepare_messages leak_request ''p''))
       = [Some (VStr ''hi''), Some (VStr ''hello'')]"
    by (simp_all add: m plain_message_def prepare_entry_def dict_exclude_none_def)
  from ne hd_eq t have "prepare_messages leak_request ''p'' =
     [[(''content'', VStr ''p''), (''role'', VRole SYSTEM)],
      [(''role'', VRole USER), (''content'', VStr ''hi'')],
      [(''role'', VRole ASSISTANT), (''content'', VStr ''hello''), (''custom_content'', VObj 7)]]"
    by (cases "prepare_messages leak_request ''p''") simp_all
  with l c show ?thesis by simp
qed

text \<open>
  C3. A user message that carries a custom content is emitted as an entry with the
  two keys role and content and nothing else: the role is User, the content is the
  message's text (the string \<^verbatim>\<open>None\<close> when the message has no text, as
  \<^verbatim>\<open>StrictStr\<close> makes it), and there is no custom content in the entry.
\<close>

theorem user_custom_content_dropped:
  assumes "i < length (messages request)"
    and "role (messages request ! i) = USER"
    and "custom_content (messages request ! i) \<noteq> None"
  shows "prepare_messages request sp ! Suc i =
           [(''role'', VRole USER), (''content'', VStr (StrictStr (content (messages request ! i))))]
         \<and> map fst (prepare_messages request sp ! Suc i) = [''role'', ''content'']
         \<and> map_of (prepare_messages request sp ! Suc i) ''custom_content'' = None
         \<and> (case content (messages request ! i) of
               Some c \<Rightarrow> map_of (prepare_messages request sp ! Suc i) ''content'' = Some (VStr c)
             | None \<Rightarrow> map_of (prepare_messages request sp ! Suc i) ''content'' = Some (VStr ''None''))"
  using assms by (simp add: prepare_messages_Cons prepare_entry_def split: option.split)

theorem user_custom_content_dropped_witness:
  "0 < length (messages form_request)
   \<and> role (messages form_request ! 0) = USER
   \<and> custom_content (messages form_request ! 0) \<noteq> None
   \<and> prepare_messages form_request ''p'' ! Suc 0 =
         [(''role'', VRole USER), (''content'', VStr ''book it'')]
   \<and> map_of (prepare_messages form_request ''p'' ! Suc 0) ''custom_content'' = None"
  using user_custom_content_dropped [of 0 form_request "''p''"]
  by (simp add: form_request_def plain_message_def)

text \<open>
  C4, as the claim states it, fails: an assistant message that carries a custom
  content is emitted by \<^verbatim>\<open>m.dict(exclude_none=True)\<close>, custom content included.
\<close>

theorem custom_content_leaks_counterexample:
  "role (messages leak_request ! 1) = ASSISTANT
   \<and> custom_content (messages leak_request ! 1) = Some 7
   \<and> prepare_messages leak_request ''p'' ! 2 =
        [(''role'', VRole ASSISTANT), (''content'', VStr ''hello''), (''custom_content'', VObj 7)]
   \<and> map_of (prepare_messages leak_request ''p'' ! 2) ''custom_content'' = Some (VObj 7)"
  by (simp add: leak_request_def plain_message_def prepare_messages_def prepare_entry_def
      dict_exclude_none_def)

text \<open>
  C4, amended. The entry of a user message never has a custom content; the entry of
  a message of any other role has the custom content of its message whenever that is
  set.
\<close>

theorem custom_content_only_of_user_dropped:
  assumes "i < length (messages request)"
  shows "map_of (prepare_messages request sp ! Suc i) ''custom_content'' =
           (if role (messages request ! i) = USER then None
            else map_option VObj (custom_content (messages request ! i)))"
  using assms
  by (auto simp add: prepare_messages_Cons prepare_entry_def dict_exclude_none_custom_content)

theorem custom_content_only_of_user_dropped_witness:
  "1 < length (messages leak_request)
   \<and> map_of (prepare_messages leak_request ''p'' ! Suc 0) ''custom_content'' = None
   \<and> map_of (prepare_messages leak_request ''p'' ! Suc 1) ''custom_content'' = Some (VObj 7)"
  using custom_content_only_of_user_dropped [of 0 leak_request "''p''"]
    custom_content_only_of_user_dropped [of 1 leak_request "''p''"]
  by (simp add: leak_request_def plain_message_def)

lemma spec_most_recent_user_Some:
  "spec_most_recent_user ms = Some u \<Longrightarrow> u \<in> set ms \<and> role u = USER"
proof -
  assume a: "spec_most_recent_user ms = Some u"
  then have ne: "filter (\<lambda>m. role m = USER) ms \<noteq> []" and u: "u = last (filter (\<lambda>m. role m = USER) ms)"
    by (auto simp add: spec_most_recent_user_def split: if_splits)
  from ne have "last (filter (\<lambda>m. role m = USER) ms) \<in> set (filter (\<lambda>m. role m = USER) ms)"
    by (rule last_in_set)
  with u show ?thesis by simp
qed

lemma spec_most_recent_user_last:
  assumes "ms \<noteq> []" and "role (last ms) = USER"
  shows "spec_most_recent_user ms = Some (last ms)"
proof -
  from assms obtain xs x where ms: "ms = xs @ [x]" and x: "role x = USER"
    by (metis append_butlast_last_id)
  then show ?thesis
    by (simp add: spec_most_recent_user_def)
qed

text \<open>
  C9, as the claim states it, fails: in a conversation that ends with an assistant
  message, the last entry built is that assistant message's, not the entry of the
  most recent user message.
\<close>

theorem last_entry_not_user_counterexample:
  "spec_most_recent_user (messages leak_request) = Some (plain_message USER ''hi'')
   \<and> last (prepare_messages leak_request ''p'') \<noteq> prepare_entry (plain_message USER ''hi'')
   \<and> map_of (last (prepare_messages leak_request ''p'')) ''role'' = Some (VRole ASSISTANT)"
  by (simp add: leak_request_def plain_message_def prepare_messages_def prepare_entry_def
      dict_exclude_none_def spec_most_recent_user_def)

text \<open>
  C9, amended. The last entry built is the entry of the last inbound message,
  whatever its role, and the system entry when the conversation is empty. It is the
  entry of the most recent user message when the conversation ends with a user
  message, and only then.
\<close>

theorem last_entry_is_last_message:
  "last (prepare_messages request sp) =
     (if messages request = [] then [(''content'', VStr sp), (''role'', VRole SYSTEM)]
      else prepare_entry (last (messages request)))
   \<and> (messages request \<noteq> [] \<and> role (last (messages request)) = USER \<longrightarrow>
        map_option prepare_entry (spec_most_recent_user (messages request))
          = Some (last (prepare_messages request sp)))
   \<and> (\<forall>u. spec_most_recent_user (messages request) = Some u
          \<and> last (prepare_messages request sp) = prepare_entry u \<longrightarrow>
        messages request \<noteq> [] \<and> role (last (messages request)) = USER)"
proof (intro conjI impI allI)
  show "last (prepare_messages request sp) =
     (if messages request = [] then [(''content'', VStr sp), (''role'', VRole SYSTEM)]
      else prepare_entry (last (messages request)))"
    by (rule last_prepare_messages)
next
  assume "messages request \<noteq> [] \<and> role (last (messages request)) = USER"
  then show "map_option prepare_entry (spec_most_recent_user (messages request))
          = Some (last (prepare_messages request sp))"
    by (simp add: spec_most_recent_user_last last_prepare_messages)
next
  fix u
  assume a: "spec_most_recent_user (messages request) = Some u
          \<and> last (prepare_messages request sp) = prepare_entry u"
  then have u: "u \<in> set (messages request)" "role u = USER"
    using spec_most_recent_user_Some by blast+
  then show "messages request \<noteq> []" by auto
  then have "last (prepare_messages request sp) = prepare_entry (last (messages request))"
    by (simp add: last_prepare_messages)
  with a have "prepare_entry (last (messages request)) = prepare_entry u" by simp
  then have "map_of (prepare_entry (last (messages request))) ''role''
    = map_of (prepare_entry u) ''role''" by simp
  with u show "role (last (messages request)) = USER"
    by (simp add: prepare_entry_role)
qed

theorem last_entry_is_last_message_witness:
  "last (prepare_messages jane_request ''p'') =
      [(''role'', VRole USER), (''content'', VStr ''Create a new account for Jane'')]
   \<and> messages jane_request \<noteq> [] \<and> role (last (messages jane_request)) = USER
   \<and> map_option prepare_entry (spec_most_recent_user (messages jane_request))
          = Some (last (prepare_messages jane_request ''p''))
   \<and> last (prepare_messages leak_request ''p'') =
        [(''role'', VRole ASSISTANT), (''content'', VStr ''hello''), (''custom_content'', VObj 7)]"
  using last_entry_is_last_message [of jane_request "''p''"]
    last_entry_is_last_message [of leak_request "''p''"]
  by (simp add: jane_request_def leak_request_def plain_message_def prepare_entry_def
      dict_exclude_none_def prepare_messages_def spec_most_recent_user_def)

section \<open>Properties of the synthesis: the rewritten request and the stream\<close>

lemma map_of_set_item: "map_of (set_item k v d) = (map_of d)(k \<mapsto> v)"
  by (induction d) (auto simp add: fun_eq_iff)

lemma keys_set_item:
  "map_of d k \<noteq> None \<Longrightarrow> map fst (set_item k v d) = map fst d"
  by (induction d) auto

lemma prepare_messages_not_Nil: "prepare_messages request sp \<noteq> []"
  by (simp add: prepare_messages_Cons)

lemma consume_chunk_spec:
  "consume_chunk c st = Inr (fst st @ spec_fragment c, snd st @ concat (spec_fragment c))"
  by (cases c)
    (simp add: consume_chunk_def spec_fragment_def first_choice_def
      split: list.split option.split)

lemma stream_loop_spec:
  "stream_loop cs st =
     ((fst st @ concat (map spec_fragment cs),
       snd st @ concat (concat (map spec_fragment cs))), None)"
  by (induction cs arbitrary: st) (simp_all add: consume_chunk_spec)

lemma spec_fragment_chunks_of:
  "concat (map spec_fragment (chunks_of fs)) = filter (\<lambda>f. f \<noteq> []) fs"
  by (induction fs) (simp_all add: chunks_of_def spec_fragment_def)

lemma concat_filter_nonempty: "concat (filter (\<lambda>f. f \<noteq> []) fs) = concat fs"
  by (induction fs) simp_all

lemma choice_appends_map: "choice_appends (map ChoiceAppend out) = out"
  by (induction out) simp_all

lemma stream_calls_map: "stream_calls (map ChoiceAppend out) = []"
  by (induction out) simp_all

lemma final_response_streamed:
  assumes "augment_last env agent_message
             (prepare_messages request (FINAL_RESPONSE_SYSTEM_PROMPT env)) = Inr msgs"
    and "chat_stream env msgs = Inr (cs, None)"
  shows "final_response env request agent_message =
           (LLMStream msgs # map ChoiceAppend (concat (map spec_fragment cs)),
            Inr \<lparr>role = ASSISTANT,
                 content = Some (concat (concat (map spec_fragment cs))),
                 custom_content = custom_content agent_message,
                 name = None, tool_calls = None, tool_call_id = None,
                 function_call = None\<rparr>)"
  using assms by (simp add: final_response_def stream_loop_spec)

lemma augment_last_Inr:
  assumes "msgs \<noteq> []" and "map_of (last msgs) ''content'' = Some q"
  shows "augment_last env agent_message msgs =
           Inr (butlast msgs @
             [set_item ''content''
                (VStr (updated_user_request (StrictStr (content agent_message))
                   (format_val env q))) (last msgs)])"
  using assms by (simp add: augment_last_def last_entry_def get_content_def)

lemma stream_calls_final_response:
  assumes "augment_last env agent_message
             (prepare_messages request (FINAL_RESPONSE_SYSTEM_PROMPT env)) = Inr msgs"
  shows "stream_calls (fst (final_response env request agent_message)) = [msgs]"
  using assms
  by (simp add: final_response_def stream_loop_spec stream_calls_map
      split: sum.split prod.split option.split)

lemma jane_messages:
  "prepare_messages jane_request (FINAL_RESPONSE_SYSTEM_PROMPT jane_env) =
     [[(''content'', VStr ''answer''), (''role'', VRole SYSTEM)],
      [(''role'', VRole USER), (''content'', VStr ''Create a new account for Jane'')]]"
  by (simp add: prepare_messages_def jane_request_def jane_env_def plain_message_def
      prepare_entry_def dict_exclude_none_def)

lemma jane_augmented:
  "augment_last jane_env account_created
     (prepare_messages jane_request (FINAL_RESPONSE_SYSTEM_PROMPT jane_env)) =
   Inr [[(''content'', VStr ''answer''), (''role'', VRole SYSTEM)],
        [(''role'', VRole USER),
         (''content'', VStr (''## CONTEXT:\<newline> Account created''
            @ ''\<newline> ---\<newline> ## USER_REQUEST: \<newline> Create a new account for Jane''))]]"
  by (simp add: jane_messages augment_last_def last_entry_def get_content_def
      updated_user_request_def format_val_def account_created_def plain_message_def)

text \<open>
  C5. When the last entry built has the text Q as its content and the agent's message
  has the content A, the streaming call is sent the list built with its last entry
  rewritten: the new content is the CONTEXT heading, A, a rule, the USER_REQUEST
  heading and Q, in this order; the entry keeps its keys and every other value; and
  the entries before the last are those that were built.
\<close>

theorem synthesis_rewrites_last_entry:
  assumes "msgs = prepare_messages request (FINAL_RESPONSE_SYSTEM_PROMPT env)"
    and "map_of (last msgs) ''content'' = Some (VStr Q)"
    and "content agent_message = Some A"
  shows "stream_calls (fst (final_response env request agent_message)) =
           [butlast msgs @ [set_item ''content'' (VStr (updated_user_request A Q)) (last msgs)]]
         \<and> updated_user_request A Q =
             ''## CONTEXT:\<newline> '' @ A @ ''\<newline> ---\<newline> ## USER_REQUEST: \<newline> '' @ Q
         \<and> map_of (set_item ''content'' (VStr (updated_user_request A Q)) (last msgs)) =
             (map_of (last msgs))(''content'' \<mapsto> VStr (updated_user_request A Q))
         \<and> map fst (set_item ''content'' (VStr (updated_user_request A Q)) (last msgs)) =
             map fst (last msgs)"
proof -
  let ?d = "set_item ''content'' (VStr (updated_user_request A Q)) (last msgs)"
  have "msgs \<noteq> []"
    using assms(1) by (simp add: prepare_messages_not_Nil)
  then have "augment_last env agent_message msgs = Inr (butlast msgs @ [?d])"
    using assms(2,3) by (simp add: augment_last_Inr format_val_def)
  then have "stream_calls (fst (final_response env request agent_message)) = [butlast msgs @ [?d]]"
    unfolding assms(1) by (rule stream_calls_final_response)
  moreover have "map fst ?d = map fst (last msgs)"
    using assms(2) by (simp add: keys_set_item)
  ultimately show ?thesis
    by (simp add: map_of_set_item updated_user_request_def)
qed

theorem synthesis_rewrites_last_entry_witness:
  "map_of (last (prepare_messages jane_request (FINAL_RESPONSE_SYSTEM_PROMPT jane_env)))
      ''content'' = Some (VStr ''Create a new account for Jane'')
   \<and> content account_created = Some ''Account created''
   \<and> stream_calls (fst (final_response jane_env jane_request account_created)) =
        [[[(''content'', VStr ''answer''), (''role'', VRole SYSTEM)],
          [(''role'', VRole USER),
           (''content'', VStr (''## CONTEXT:\<newline> Account created''
              @ ''\<newline> ---\<newline> ## USER_REQUEST: \<newline> Create a new account for Jane''))]]]"
proof -
  have h1: "map_of (last (prepare_messages jane_request (FINAL_RESPONSE_SYSTEM_PROMPT jane_env)))
      ''content'' = Some (VStr ''Create a new account for Jane'')"
    by (simp add: jane_messages)
  have h2: "content account_created = Some ''Account created''"
    by (simp add: account_created_def plain_message_def)
  from synthesis_rewrites_last_entry [OF refl h1 h2] h1 h2
  show ?thesis by (simp add: jane_messages)
qed

text \<open>
  C6. When the stream delivers the fragments \<open>fs\<close> and ends, the message returned
  has the role Assistant, the concatenation of \<open>fs\<close> in their order as content
  (\<^verbatim>\<open>Hel\<close> then \<^verbatim>\<open>lo\<close> give \<^verbatim>\<open>Hello\<close>) and the custom content of the agent's
  message; the fragments appended to the caller's choice are the non-empty ones of
  \<open>fs\<close> in the same order, so the caller has seen the same text.
\<close>

theorem final_message_concatenates_fragments:
  assumes "augment_last env agent_message
             (prepare_messages request (FINAL_RESPONSE_SYSTEM_PROMPT env)) = Inr msgs"
    and "chat_stream env msgs = Inr (chunks_of fs, None)"
  shows "snd (final_response env request agent_message) =
           Inr \<lparr>role = ASSISTANT, content = Some (concat fs),
                custom_content = custom_content agent_message,
                name = None, tool_calls = None, tool_call_id = None, function_call = None\<rparr>
         \<and> choice_appends (fst (final_response env request agent_message))
             = filter (\<lambda>f. f \<noteq> []) fs
         \<and> concat (choice_appends (fst (final_response env request agent_message))) = concat fs"
  using assms
  by (simp add: final_response_streamed spec_fragment_chunks_of concat_filter_nonempty
      choice_appends_map)

theorem final_message_concatenates_fragments_witness:
  "chat_stream jane_env
      [[(''content'', VStr ''answer''), (''role'', VRole SYSTEM)],
        [(''role'', VRole USER),
         (''content'', VStr (''## CONTEXT:\<newline> Account created''
            @ ''\<newline> ---\<newline> ## USER_REQUEST: \<newline> Create a new account for Jane''))]]
     = Inr (chunks_of [''Hel'', ''lo''], None)
   \<and> snd (final_response jane_env jane_request account_created) =
        Inr \<lparr>role = ASSISTANT, content = Some ''Hello'', custom_content = Some 42,
             name = None, tool_calls = None, tool_call_id = None, function_call = None\<rparr>
   \<and> choice_appends (fst (final_response jane_env jane_request account_created))
        = [''Hel'', ''lo'']"
proof -
  have h: "chat_stream jane_env
      [[(''content'', VStr ''answer''), (''role'', VRole SYSTEM)],
        [(''role'', VRole USER),
         (''content'', VStr (''## CONTEXT:\<newline> Account created''
            @ ''\<newline> ---\<newline> ## USER_REQUEST: \<newline> Create a new account for Jane''))]]
     = Inr (chunks_of [''Hel'', ''lo''], None)"
    by (simp add: jane_env_def)
  from final_message_concatenates_fragments [OF jane_augmented h] h
  show ?thesis by (simp add: account_created_def plain_message_def)
qed

text \<open>
  C10. A chunk with no choice, or whose first choice has no delta, or a delta with no
  content or an empty one, leaves the accumulated content and the caller's choice as
  they were; a non-empty content is appended to both; the first choice is never read
  from an empty list (no \<open>IndexError\<close>); so the loop ends with exactly the non-empty
  contents, in order, in both, and the message returned has their concatenation as
  content.
\<close>

theorem stream_skips_empty_chunks:
  "consume_chunk (Chunk []) st = Inr st
   \<and> consume_chunk (Chunk (ChunkChoice None # rest)) st = Inr st
   \<and> consume_chunk (Chunk (ChunkChoice (Some (Delta None)) # rest)) st = Inr st
   \<and> consume_chunk (Chunk (ChunkChoice (Some (Delta (Some []))) # rest)) st = Inr st
   \<and> (s \<noteq> [] \<longrightarrow>
        consume_chunk (Chunk (ChunkChoice (Some (Delta (Some s))) # rest)) st
          = Inr (fst st @ [s], snd st @ s))
   \<and> consume_chunk c st \<noteq> Inl IndexError
   \<and> stream_loop cs st =
        ((fst st @ concat (map spec_fragment cs),
          snd st @ concat (concat (map spec_fragment cs))), None)
   \<and> (augment_last env agent_message
          (prepare_messages request (FINAL_RESPONSE_SYSTEM_PROMPT env)) = Inr msgs
        \<and> chat_stream env msgs = Inr (cs, None) \<longrightarrow>
        choice_appends (fst (final_response env request agent_message))
          = concat (map spec_fragment cs)
        \<and> snd (final_response env request agent_message) =
            Inr \<lparr>role = ASSISTANT,
                 content = Some (concat (concat (map spec_fragment cs))),
                 custom_content = custom_content agent_message,
                 name = None, tool_calls = None, tool_call_id = None,
                 function_call = None\<rparr>)"
proof -
  have "consume_chunk (Chunk []) st = Inr st"
    and "consume_chunk (Chunk (ChunkChoice None # rest)) st = Inr st"
    and "consume_chunk (Chunk (ChunkChoice (Some (Delta None)) # rest)) st = Inr st"
    and "consume_chunk (Chunk (ChunkChoice (Some (Delta (Some []))) # rest)) st = Inr st"
    and "s \<noteq> [] \<longrightarrow>
        consume_chunk (Chunk (ChunkChoice (Some (Delta (Some s))) # rest)) st
          = Inr (fst st @ [s], snd st @ s)"
    by (simp_all add: consume_chunk_def first_choice_def)
  moreover have "consume_chunk c st \<noteq> Inl IndexError"
    by (simp add: consume_chunk_spec)
  moreover have "stream_loop cs st =
        ((fst st @ concat (map spec_fragment cs),
          snd st @ concat (concat (map spec_fragment cs))), None)"
    by (rule stream_loop_spec)
  moreover have "augment_last env agent_message
          (prepare_messages request (FINAL_RESPONSE_SYSTEM_PROMPT env)) = Inr msgs
        \<and> chat_stream env msgs = Inr (cs, None) \<longrightarrow>
        choice_appends (fst (final_response env request agent_message))
          = concat (map spec_fragment cs)
        \<and> snd (final_response env request agent_message) =
            Inr \<lparr>role = ASSISTANT,
                 content = Some (concat (concat (map spec_fragment cs))),
                 custom_content = custom_content agent_message,
                 name = None, tool_calls = None, tool_call_id = None,
                 function_call = None\<rparr>"
    by (simp add: final_response_streamed choice_appends_map)
  ultimately show ?thesis by (intro conjI)
qed

lemma gappy_augmented:
  "augment_last gappy_env account_created
     (prepare_messages jane_request (FINAL_RESPONSE_SYSTEM_PROMPT gappy_env)) =
   Inr [[(''content'', VStr ''answer''), (''role'', VRole SYSTEM)],
        [(''role'', VRole USER),
         (''content'', VStr (''## CONTEXT:\<newline> Account created''
            @ ''\<newline> ---\<newline> ## USER_REQUEST: \<newline> Create a new account for Jane''))]]"
  by (simp add: gappy_env_def jane_env_def prepare_messages_def jane_request_def
      plain_message_def prepare_entry_def dict_exclude_none_def augment_last_def
      last_entry_def get_content_def updated_user_request_def format_val_def
      account_created_def)

theorem stream_skips_empty_chunks_witness:
  "consume_chunk (Chunk [ChunkChoice (Some (Delta (Some ''lo'')))]) ([''Hel''], ''Hel'')
      = Inr ([''Hel'', ''lo''], ''Hello'')
   \<and> stream_loop gappy_chunks ([], []) = (([''Hel'', ''lo''], ''Hello''), None)
   \<and> chat_stream gappy_env
        [[(''content'', VStr ''answer''), (''role'', VRole SYSTEM)],
         [(''role'', VRole USER),
          (''content'', VStr (''## CONTEXT:\<newline> Account created''
            @ ''\<newline> ---\<newline> ## USER_REQUEST: \<newline> Create a new account for Jane''))]]
        = Inr (gappy_chunks, None)
   \<and> choice_appends (fst (final_response gappy_env jane_request account_created))
        = [''Hel'', ''lo'']
   \<and> snd (final_response gappy_env jane_request account_created) =
        Inr \<lparr>role = ASSISTANT, content = Some ''Hello'', custom_content = Some 42,
             name = None, tool_calls = None, tool_call_id = None, function_call = None\<rparr>"
proof -
  have h: "chat_stream gappy_env
        [[(''content'', VStr ''answer''), (''role'', VRole SYSTEM)],
         [(''role'', VRole USER),
          (''content'', VStr (''## CONTEXT:\<newline> Account created''
            @ ''\<newline> ---\<newline> ## USER_REQUEST: \<newline> Create a new account for Jane''))]]
        = Inr (gappy_chunks, None)"
    by (simp add: gappy_env_def)
  have cc: "custom_content account_created = Some 42"
    by (simp add: account_created_def plain_message_def)
  have f: "concat (map spec_fragment gappy_chunks) = [''Hel'', ''lo'']"
    by (simp add: gappy_chunks_def spec_fragment_def)
  from stream_skips_empty_chunks [where st = "([''Hel''], ''Hel'')" and s = "''lo''"
      and rest = "[]" and c = "Chunk []" and cs = "[]" and env = gappy_env
      and agent_message = account_created and request = jane_request and msgs = "[]"]
  have a: "consume_chunk (Chunk [ChunkChoice (Some (Delta (Some ''lo'')))]) ([''Hel''], ''Hel'')
      = Inr ([''Hel'', ''lo''], ''Hello'')"
    by simp
  from stream_skips_empty_chunks [where st = "([], [])" and cs = gappy_chunks
      and s = "''lo''" and rest = "[]" and c = "Chunk []"
      and env = gappy_env and agent_message = account_created and request = jane_request
      and msgs = "[[(''content'', VStr ''answer''), (''role'', VRole SYSTEM)],
         [(''role'', VRole USER),
          (''content'', VStr (''## CONTEXT:\<newline> Account created''
            @ ''\<newline> ---\<newline> ## USER_REQUEST: \<newline> Create a new account for Jane''))]]"]
    h a
  show ?thesis
    by (simp add: f gappy_augmented cc)
qed

section \<open>Properties of the dispatch and of the pipeline\<close>

lemma stream_calls_append: "stream_calls (a @ b) = stream_calls a @ stream_calls b"
  by (induction a rule: stream_calls.induct) simp_all

lemma track_segments_append:
  "track_segments opened (a @ b) = track_segments (track_segments opened a) b"
  by (induction opened a rule: track_segments.induct) simp_all

lemma track_segments_ChoiceAppend: "track_segments opened (map ChoiceAppend out) = opened"
  by (induction out) simp_all

lemma prepare_coordination_request_trace:
  "fst (prepare_coordination_request env request) =
     [LLMCall (prepare_messages request (COORDINATION_REQUEST_SYSTEM_PROMPT env))]"
  by (simp add: prepare_coordination_request_def Let_def)

lemma handle_coordination_request_trace:
  "fst (handle_coordination_request env cr request) =
     (if agent_name cr = GPA then [GatewayCall GPAGateway (additional_instructions cr)]
      else if agent_name cr = UMS then [GatewayCall UMSAgentGateway (additional_instructions cr)]
      else [])"
  by (simp add: handle_coordination_request_def)

lemma track_segments_dispatch:
  "track_segments opened (fst (handle_coordination_request env cr request)) = opened"
  by (simp add: handle_coordination_request_trace)

lemma track_segments_final_response:
  "track_segments opened (fst (final_response env request agent_message)) = opened"
  by (simp add: final_response_def stream_loop_spec track_segments_ChoiceAppend
      split: sum.split prod.split option.split)

lemma call_stage_neq: "call_stage env cr \<noteq> coordination_stage"
  by (simp add: call_stage_def coordination_stage_def)

lemma failing_decision:
  "prepare_coordination_request failing_env jane_request =
     ([LLMCall (prepare_messages jane_request ''decide'')], Inr ums_decision)"
  by (simp add: prepare_coordination_request_def failing_env_def jane_env_def)

lemma failing_dispatch:
  "handle_coordination_request failing_env ums_decision jane_request =
     ([GatewayCall UMSAgentGateway (Some ''create account for Jane'')],
      Inl (Upstream ''connection refused''))"
  by (simp add: handle_coordination_request_def failing_env_def jane_env_def ums_decision_def)

lemma failing_call_stage: "call_stage failing_env ums_decision = ''Call UMS Agent''"
  by (simp add: call_stage_def failing_env_def jane_env_def ums_decision_def)

text \<open>
  C1. The gateway is chosen by the agent name alone: for GPA the general-purpose
  gateway is called, once, and nothing else, and its answer is the result; for UMS
  the same with the gateway of the user management service; for any other name the
  result is the error \<^verbatim>\<open>ValueError("Unknown Agent")\<close> and no gateway has been called.
\<close>

theorem dispatch_selects_one_gateway:
  "(agent_name cr = GPA \<longrightarrow>
      handle_coordination_request env cr request =
        ([GatewayCall GPAGateway (additional_instructions cr)],
         gpa_response env request (additional_instructions cr)))
   \<and> (agent_name cr = UMS \<longrightarrow>
      handle_coordination_request env cr request =
        ([GatewayCall UMSAgentGateway (additional_instructions cr)],
         ums_response env request (additional_instructions cr)))
   \<and> (agent_name cr \<noteq> GPA \<and> agent_name cr \<noteq> UMS \<longrightarrow>
      handle_coordination_request env cr request = ([], Inl (ValueError ''Unknown Agent'')))
   \<and> gateway_calls (fst (handle_coordination_request env cr request)) =
        (case agent_name cr of GPA \<Rightarrow> [GPAGateway] | UMS \<Rightarrow> [UMSAgentGateway]
         | UnknownAgent a \<Rightarrow> [])"
  by (cases "agent_name cr") (simp_all add: handle_coordination_request_def)

theorem dispatch_selects_one_gateway_witness:
  "handle_coordination_request jane_env
      \<lparr>agent_name = GPA, additional_instructions = Some ''look it up''\<rparr> jane_request
     = ([GatewayCall GPAGateway (Some ''look it up'')], Inl (Upstream ''not called''))
   \<and> handle_coordination_request jane_env ums_decision jane_request
     = ([GatewayCall UMSAgentGateway (Some ''create account for Jane'')], Inr account_created)
   \<and> handle_coordination_request jane_env
      \<lparr>agent_name = UnknownAgent ''Billing'', additional_instructions = None\<rparr> jane_request
     = ([], Inl (ValueError ''Unknown Agent''))"
  using dispatch_selects_one_gateway [of
      "\<lparr>agent_name = GPA, additional_instructions = Some ''look it up''\<rparr>" jane_env jane_request]
    dispatch_selects_one_gateway [of ums_decision jane_env jane_request]
    dispatch_selects_one_gateway [of
      "\<lparr>agent_name = UnknownAgent ''Billing'', additional_instructions = None\<rparr>"
      jane_env jane_request]
  by (simp add: jane_env_def ums_decision_def)

text \<open>
  C7. When the decision was obtained and the call of the selected gateway (or the
  selection itself) raises, \<^verbatim>\<open>handle_request\<close> raises the same error, so no
  message is returned, and no streaming LLM call has been made.
\<close>

theorem gateway_error_stops_pipeline:
  assumes "prepare_coordination_request env request = (t1, Inr cr)"
    and "snd (handle_coordination_request env cr request) = Inl e"
  shows "snd (handle_request env request) = Inl e
         \<and> stream_calls (fst (handle_request env request)) = []"
proof -
  obtain t3 where d: "handle_coordination_request env cr request = (t3, Inl e)"
    using assms(2) by (cases "handle_coordination_request env cr request") simp
  have t1: "t1 = [LLMCall (prepare_messages request (COORDINATION_REQUEST_SYSTEM_PROMPT env))]"
    using assms(1) prepare_coordination_request_trace [of env request] by simp
  have t3: "stream_calls t3 = []"
    using d handle_coordination_request_trace [of env cr request] by (simp split: if_splits)
  show ?thesis
    using assms(1) d t1 t3 by (simp add: handle_request_def stream_calls_append)
qed

theorem gateway_error_stops_pipeline_witness:
  "prepare_coordination_request failing_env jane_request =
     ([LLMCall (prepare_messages jane_request ''decide'')], Inr ums_decision)
   \<and> snd (handle_coordination_request failing_env ums_decision jane_request) =
       Inl (Upstream ''connection refused'')
   \<and> snd (handle_request failing_env jane_request) = Inl (Upstream ''connection refused'')
   \<and> stream_calls (fst (handle_request failing_env jane_request)) = []"
proof -
  have h2: "snd (handle_coordination_request failing_env ums_decision jane_request) =
       Inl (Upstream ''connection refused'')"
    by (simp add: failing_dispatch)
  from gateway_error_stops_pipeline [OF failing_decision h2] failing_decision h2
  show ?thesis by simp
qed

text \<open>
  C8, as the claim states it, fails: when the gateway raises, the segment opened for
  the agent call is never closed.
\<close>

theorem segment_left_open_counterexample:
  "snd (handle_request failing_env jane_request) = Inl (Upstream ''connection refused'')
   \<and> StageOpen ''Call UMS Agent'' \<in> set (fst (handle_request failing_env jane_request))
   \<and> StageClose ''Call UMS Agent'' \<notin> set (fst (handle_request failing_env jane_request))
   \<and> open_segments (fst (handle_request failing_env jane_request)) = [''Call UMS Agent'']"
  by (simp add: handle_request_def failing_decision failing_dispatch open_segments_def
      coordination_stage_def failing_call_stage)

text \<open>
  C8, amended. A progress segment is closed when the phase it narrates returns: the
  pipeline ends with no segment open when the decision and the agent call both
  succeed, with the segment of the decision open when the decision fails, and with
  the segment of the agent call open when the dispatch fails; in the last two cases
  the request fails with that error.
\<close>

theorem segments_closed_when_phase_succeeds:
  "open_segments (fst (handle_request env request)) =
     (case snd (prepare_coordination_request env request) of
        Inl e \<Rightarrow> [coordination_stage]
      | Inr cr \<Rightarrow>
          (case snd (handle_coordination_request env cr request) of
             Inl e \<Rightarrow> [call_stage env cr]
           | Inr agent_message \<Rightarrow> []))
   \<and> snd (handle_request env request) =
     (case snd (prepare_coordination_request env request) of
        Inl e \<Rightarrow> Inl e
      | Inr cr \<Rightarrow>
          (case snd (handle_coordination_request env cr request) of
             Inl e \<Rightarrow> Inl e
           | Inr agent_message \<Rightarrow> snd (final_response env request agent_message)))"
proof (cases "prepare_coordination_request env request")
  case (Pair t1 r1)
  note p = this
  have t1: "t1 = [LLMCall (prepare_messages request (COORDINATION_REQUEST_SYSTEM_PROMPT env))]"
    using p prepare_coordination_request_trace [of env request] by simp
  show ?thesis
  proof (cases r1)
    case (Inl e)
    with p t1 show ?thesis
      by (simp add: handle_request_def open_segments_def)
  next
    case (Inr cr)
    note r = this
    obtain t3 r3 where d: "handle_coordination_request env cr request = (t3, r3)"
      by (cases "handle_coordination_request env cr request")
    have t3: "\<And>opened. track_segments opened t3 = opened"
      using d track_segments_dispatch [of _ env cr request] by simp
    show ?thesis
    proof (cases r3)
      case (Inl e)
      with p r d t1 t3 show ?thesis
        by (simp add: handle_request_def open_segments_def track_segments_append
            call_stage_neq)
    next
      case (Inr agent_message)
      obtain t4 r4 where f: "final_response env request agent_message = (t4, r4)"
        by (cases "final_response env request agent_message")
      have t4: "\<And>opened. track_segments opened t4 = opened"
        using f track_segments_final_response [of _ env request agent_message] by simp
      from p r d t1 t3 Inr f t4 show ?thesis
        by (simp add: handle_request_def open_segments_def track_segments_append
            call_stage_neq)
    qed
  qed
qed


end
